theory Spec2Isabelle
  imports Main "HOL-Library.Word"
begin

section \<open>The connection tester: \<open>tests/src/xpc_connection_tester.c\<close>\<close>

text \<open>
  The only function with a body in the sources is \<open>main\<close> of the connection tester.
  It is a straight line of library calls behind one guard on \<open>argc\<close>. The embedding
  records what \<open>main\<close> does as the list of library calls it makes, in program order,
  together with the way it ends.

  The library is not part of the sources. Its calls are taken to hand control back to
  \<open>main\<close>; the two calls whose results \<open>main\<close> binds (\<open>xpc_dictionary_create\<close> and
  \<open>xpc_connection_create_mach_service\<close>) get their results from a \<open>host\<close>, about
  which nothing is assumed.
\<close>

subsection \<open>Data\<close>

text \<open>C's \<open>int\<close>: 32 bits, compared and read as two's complement.\<close>

type_synonym c_int = "32 word"

text \<open>
  \<open>xpc_object_t\<close> and \<open>xpc_connection_t\<close> are pointers to opaque objects: \<open>None\<close> is
  \<open>NULL\<close>, \<open>Some a\<close> is the object at address \<open>a\<close>.
\<close>

type_synonym xpc_object_t = "nat option"
type_synonym xpc_connection_t = "nat option"

text \<open>
  The library calls \<open>main\<close> can make, each with the arguments that vary. The call
  \<open>xpc_connection_send_message\<close> stands in the source as a comment only; it is part
  of the vocabulary so that its absence from a run can be stated.
\<close>

datatype call =
    Printf string
  | Perror string
  | Xpc_dictionary_create
  | Xpc_connection_create_mach_service string
  | Xpc_connection_set_event_handler xpc_connection_t
  | Xpc_connection_resume xpc_connection_t
  | Xpc_connection_send_message xpc_connection_t xpc_object_t

text \<open>How \<open>main\<close> ends: through \<open>exit(status)\<close>, or by \<open>return status\<close>.\<close>

datatype ending = Exit_called c_int | Returned c_int

fun exit_status :: "ending \<Rightarrow> c_int" where
  "exit_status (Exit_called s) = s"
| "exit_status (Returned s) = s"

text \<open>
  \<open>argv[1]\<close> is read only after \<open>argc < 2\<close> has been excluded. An \<open>argv\<close> with fewer
  than two entries there is a read past the array, which C leaves undefined: the model
  makes it a fault of its own rather than some value.
\<close>

datatype fault = Argv_read_past_end

record host =
  xpc_dictionary_create :: xpc_object_t
  xpc_connection_create_mach_service :: "string \<Rightarrow> xpc_connection_t"

subsection \<open>The program\<close>

text \<open>
  The format string of the first \<open>printf\<close>; it has no conversion, so it is the text
  printed: \<^verbatim>\<open>"\n[-] XPC Service Name is missing\n\nUsage:\n\txpc_connection_tester <xpc_service_name>\n"\<close>.
\<close>

definition usage_message :: string where
  "usage_message =
     ''\<newline>[-] XPC Service Name is missing\<newline>\<newline>Usage:\<newline>'' @
     [CHR 0x09] @ ''xpc_connection_tester <xpc_service_name>\<newline>''"

text \<open>
  \<^verbatim>\<open>
  int main(int argc, char **argv) {
      if (argc < 2) {
          printf("\n[-] XPC Service Name is missing\n\nUsage:\n\t...\n");
          exit(-1);
      }
      xpc_object_t msg = xpc_dictionary_create(NULL, NULL, 0);
      xpc_connection_t conn = xpc_connection_create_mach_service(argv[1], NULL, 0);
      if (conn == NULL) {
          perror("xpc_connection_create_mach_service");
      }
      xpc_connection_set_event_handler(conn, ^(xpc_object_t obj) { ... });
      xpc_connection_resume(conn);
      // xpc_connection_send_message(conn, msg);
      return 0;
  }
  \<close>
  The block handed to \<open>xpc_connection_set_event_handler\<close> is run by the library, if
  ever, when an event arrives; it is no part of the calls \<open>main\<close> itself makes. The
  dictionary \<open>msg\<close> is bound and not used again.
\<close>

definition main :: "host \<Rightarrow> c_int \<Rightarrow> string list \<Rightarrow> fault + (call list \<times> ending)" where
  "main h argc argv =
     (if argc <s 2 then
        Inr ([Printf usage_message], Exit_called (- 1))
      else if length argv < 2 then
        Inl Argv_read_past_end
      else
        let msg = xpc_dictionary_create h;
            conn = xpc_connection_create_mach_service h (argv ! 1)
        in Inr ([Xpc_dictionary_create,
                 Xpc_connection_create_mach_service (argv ! 1)] @
                (if conn = None then [Perror ''xpc_connection_create_mach_service''] else []) @
                [Xpc_connection_set_event_handler conn,
                 Xpc_connection_resume conn],
                Returned 0))"

subsection \<open>Vocabulary of the properties\<close>

text \<open>
  What the C runtime hands to \<open>main\<close>: \<open>argc\<close> is the number of entries of \<open>argv\<close>,
  the program's name included.
\<close>

definition hosted :: "c_int \<Rightarrow> string list \<Rightarrow> bool" where
  "hosted argc argv \<longleftrightarrow> sint argc = int (length argv)"

text \<open>A call that touches the XPC library at all, as opposed to writing text.\<close>

fun is_xpc_call :: "call \<Rightarrow> bool" where
  "is_xpc_call (Printf _) = False"
| "is_xpc_call (Perror _) = False"
| "is_xpc_call _ = True"

fun is_send :: "call \<Rightarrow> bool" where
  "is_send (Xpc_connection_send_message _ _) = True"
| "is_send _ = False"

section \<open>Properties of \<open>main\<close>\<close>

lemma hosted_two_args:
  assumes "hosted argc argv" and "\<not> argc <s 2"
  shows "\<not> length argv < 2"
  using assms by (simp add: hosted_def word_sless_alt)

lemma main_with_service_name:
  assumes "hosted argc argv" and "\<not> argc <s 2"
  shows "main h argc argv =
           Inr ([Xpc_dictionary_create,
                 Xpc_connection_create_mach_service (argv ! 1)] @
                (if xpc_connection_create_mach_service h (argv ! 1) = None
                 then [Perror ''xpc_connection_create_mach_service''] else []) @
                [Xpc_connection_set_event_handler
                   (xpc_connection_create_mach_service h (argv ! 1)),
                 Xpc_connection_resume
                   (xpc_connection_create_mach_service h (argv ! 1))],
                Returned 0)"
  using assms(2) hosted_two_args [OF assms] by (simp add: main_def Let_def)

text \<open>
  Claim C1. Called with no service name (\<open>argc < 2\<close>), \<open>main\<close> prints the usage
  message that says the service name is missing and ends through \<open>exit(-1)\<close>: the
  status is negative, hence not zero. The \<open>printf\<close> is the only call of the run, so
  nothing is enumerated and no connection is attempted before the exit.
\<close>

theorem main_without_service_name:
  assumes "argc <s 2"
  shows "\<exists>calls e.
           main h argc argv = Inr (calls, e) \<and>
           calls = [Printf usage_message] \<and>
           e = Exit_called (- 1) \<and>
           sint (exit_status e) = - 1 \<and> exit_status e \<noteq> 0 \<and>
           (\<forall>c \<in> set calls. \<not> is_xpc_call c)"
  using assms by (simp add: main_def)

theorem main_without_service_name_witness:
  "(1 :: c_int) <s 2 \<and>
   main \<lparr>xpc_dictionary_create = Some 1,
         xpc_connection_create_mach_service = (\<lambda>name. Some 2)\<rparr>
        1 [''xpc_connection_tester''] =
     Inr ([Printf usage_message], Exit_called (- 1))"
proof -
  have small: "(1 :: c_int) <s 2"
    by (simp add: word_sless_alt)
  from main_without_service_name [OF small]
  have "main \<lparr>xpc_dictionary_create = Some 1,
              xpc_connection_create_mach_service = (\<lambda>name. Some 2)\<rparr>
             1 [''xpc_connection_tester''] =
          Inr ([Printf usage_message], Exit_called (- 1))"
    by blast
  with small show ?thesis by simp
qed

text \<open>
  Claim C2. Called with a service name (\<open>argc \<ge> 2\<close>), \<open>main\<close> ends by \<open>return 0\<close>
  whatever the host answers: the request dictionary is created, no call of the run
  sends it, and two hosts that answer differently for the named service get the same
  exit status.
\<close>

theorem main_returns_zero:
  assumes "hosted argc argv" and "\<not> argc <s 2"
  shows "\<exists>calls.
           main h argc argv = Inr (calls, Returned 0) \<and>
           Xpc_dictionary_create \<in> set calls \<and>
           (\<forall>c \<in> set calls. \<not> is_send c) \<and>
           (\<forall>h'. map_sum id (exit_status \<circ> snd) (main h' argc argv) =
                  map_sum id (exit_status \<circ> snd) (main h argc argv))"
  by (simp add: main_with_service_name [OF assms])

theorem main_returns_zero_witness:
  "hosted 2 [''xpc_connection_tester'', ''com.apple.securityd''] \<and>
   \<not> (2 :: c_int) <s 2 \<and>
   main \<lparr>xpc_dictionary_create = Some 1,
         xpc_connection_create_mach_service = (\<lambda>name. Some 2)\<rparr>
        2 [''xpc_connection_tester'', ''com.apple.securityd''] =
     Inr ([Xpc_dictionary_create,
           Xpc_connection_create_mach_service ''com.apple.securityd'',
           Xpc_connection_set_event_handler (Some 2),
           Xpc_connection_resume (Some 2)],
          Returned 0)"
proof -
  let ?h = "\<lparr>xpc_dictionary_create = Some 1,
             xpc_connection_create_mach_service = (\<lambda>name. Some 2)\<rparr>"
  let ?argv = "[''xpc_connection_tester'', ''com.apple.securityd'']"
  have args: "hosted 2 ?argv"
    by (simp add: hosted_def)
  have two: "\<not> (2 :: c_int) <s 2"
    by (simp add: word_sless_alt)
  from main_returns_zero [OF args two, of ?h]
  obtain calls where run: "main ?h 2 ?argv = Inr (calls, Returned 0)"
    by blast
  have "main ?h 2 ?argv =
          Inr ([Xpc_dictionary_create,
                Xpc_connection_create_mach_service ''com.apple.securityd'',
                Xpc_connection_set_event_handler (Some 2),
                Xpc_connection_resume (Some 2)],
               snd (projr (main ?h 2 ?argv)))"
    using two by (simp add: main_def Let_def)
  with run args two show ?thesis by simp
qed

text \<open>
  Claim C3. When \<open>xpc_connection_create_mach_service\<close> answers \<open>NULL\<close> for the name
  given, \<open>main\<close> calls \<open>perror\<close> and goes on: it registers the event handler on the
  \<open>NULL\<close> handle, resumes the \<open>NULL\<close> handle, and ends by \<open>return 0\<close>.
\<close>

theorem main_null_connection:
  assumes "hosted argc argv" and "\<not> argc <s 2"
    and "xpc_connection_create_mach_service h (argv ! 1) = None"
  shows "main h argc argv =
           Inr ([Xpc_dictionary_create,
                 Xpc_connection_create_mach_service (argv ! 1),
                 Perror ''xpc_connection_create_mach_service'',
                 Xpc_connection_set_event_handler None,
                 Xpc_connection_resume None],
                Returned 0)"
  using assms(3) by (simp add: main_with_service_name [OF assms(1,2)])

theorem main_null_connection_witness:
  "hosted 2 [''xpc_connection_tester'', ''no.such.service''] \<and>
   \<not> (2 :: c_int) <s 2 \<and>
   xpc_connection_create_mach_service
     \<lparr>xpc_dictionary_create = Some 1,
      xpc_connection_create_mach_service = (\<lambda>name. None)\<rparr>
     ([''xpc_connection_tester'', ''no.such.service''] ! 1) = None \<and>
   main \<lparr>xpc_dictionary_create = Some 1,
         xpc_connection_create_mach_service = (\<lambda>name. None)\<rparr>
        2 [''xpc_connection_tester'', ''no.such.service''] =
     Inr ([Xpc_dictionary_create,
           Xpc_connection_create_mach_service ''no.such.service'',
           Perror ''xpc_connection_create_mach_service'',
           Xpc_connection_set_event_handler None,
           Xpc_connection_resume None],
          Returned 0)"
proof -
  let ?h = "\<lparr>xpc_dictionary_create = Some 1,
             xpc_connection_create_mach_service = (\<lambda>name. None)\<rparr>"
  let ?argv = "[''xpc_connection_tester'', ''no.such.service'']"
  have args: "hosted 2 ?argv"
    by (simp add: hosted_def)
  have two: "\<not> (2 :: c_int) <s 2"
    by (simp add: word_sless_alt)
  have null: "xpc_connection_create_mach_service ?h (?argv ! 1) = None"
    by simp
  from main_null_connection [OF args two null] args two null
  show ?thesis by simp
qed

end
